theory Spec2Isabelle
  imports Complex_Main "HOL-Library.Monad_Syntax"
begin

section \<open>Song Battle: the Elo rating engine and the matchmaker\<close>

text \<open>
  The development embeds four parts of the program: the package \<^verbatim>\<open>models\<close> (the rows
  of the store), the package \<^verbatim>\<open>store\<close> (the SQLite tables behind \<^verbatim>\<open>DB\<close>), the
  package \<^verbatim>\<open>elo\<close> (the rating engine) and the \<^verbatim>\<open>Matchmaker\<close> (the choice of the next
  pair).

  Conventions of the embedding.
  \<^item> Go's \<^verbatim>\<open>int\<close> (64 bits wide on the platforms of the program) and \<^verbatim>\<open>int64\<close> are
    \<open>int\<close>. A counter grows by one per duel and an Elo by at most 32, so the values
    stay far from the limits of 64 bits; where a statement depends on that distance
    (the start value of \<^verbatim>\<open>bestDifference\<close>), it carries the range as a hypothesis.
  \<^item> \<^verbatim>\<open>float64\<close> is \<open>real\<close>: the arithmetic of the scores is taken as exact. The
    concrete inputs evaluated below are chosen so that the float64 computation is
    either exact or far from a rounding boundary.
  \<^item> An \<^verbatim>\<open>error\<close> result is the left summand of a sum type, \<^verbatim>\<open>nil\<close> the right one.
  \<^item> A pointer that may be \<^verbatim>\<open>nil\<close> is an \<open>option\<close>.
\<close>

subsection \<open>Package models\<close>

type_synonym time = int

text \<open>Of a track, the engine reads the identifier only; the metadata columns kept here
  are the ones the interface shows.\<close>

record Track =
  ID :: int
  SpotifyID :: string
  Name :: string
  Artist :: string

record Rating =
  TrackID :: int
  Elo :: int
  Wins :: int
  Losses :: int
  Draws :: int
  LastSeenAt :: time

text \<open>\<^verbatim>\<open>WinnerTrackID\<close> is \<^verbatim>\<open>NULL\<close> for a draw and for a skip. The field \<^verbatim>\<open>ID\<close> of a duel is
  called \<open>DuelID\<close>, the name \<open>ID\<close> being the track's.\<close>

record Duel =
  DuelID :: int
  LeftTrackID :: int
  RightTrackID :: int
  WinnerTrackID :: "int option"
  CreatedAt :: time

record TrackWithRating =
  Track :: Track
  Rating :: Rating

definition WinnerLeft :: string where "WinnerLeft = ''left''"
definition WinnerRight :: string where "WinnerRight = ''right''"
definition WinnerDraw :: string where "WinnerDraw = ''draw''"
definition WinnerSkip :: string where "WinnerSkip = ''skip''"

definition GetTotalBattles :: "Rating \<Rightarrow> int" where
  "GetTotalBattles r = Wins r + Losses r + Draws r"



subsection \<open>Package elo: the arithmetic\<close>

definition InitialElo :: int where "InitialElo = 1200"
definition MaxK :: int where "MaxK = 32"
definition MidK :: int where "MidK = 24"
definition MinK :: int where "MinK = 16"
definition NewPlayerThreshold :: int where "NewPlayerThreshold = 10"
definition ExperiencedPlayerThreshold :: int where "ExperiencedPlayerThreshold = 30"

text \<open>\<^verbatim>\<open>math.Pow(10, y)\<close> is \<open>10 powr y\<close>.\<close>

definition CalculateExpectedScore :: "int \<Rightarrow> int \<Rightarrow> real" where
  "CalculateExpectedScore eloA eloB = 1 / (1 + 10 powr (of_int (eloB - eloA) / 400))"

definition GetKFactor :: "int \<Rightarrow> int" where
  "GetKFactor totalBattles =
     (if totalBattles < NewPlayerThreshold then MaxK
      else if totalBattles < ExperiencedPlayerThreshold then MidK
      else MinK)"

text \<open>\<^verbatim>\<open>math.Round\<close> of the Go library: the nearest integer, a half rounded away from
  zero. The conversion \<^verbatim>\<open>int(x)\<close> of a float64 cuts the fraction off.\<close>

definition math_Round :: "real \<Rightarrow> real" where
  "math_Round x = (if x < 0 then - of_int \<lfloor>- x + 1 / 2\<rfloor> else of_int \<lfloor>x + 1 / 2\<rfloor>)"

definition int_of_float :: "real \<Rightarrow> int" where
  "int_of_float x = (if x < 0 then \<lceil>x\<rceil> else \<lfloor>x\<rfloor>)"

definition CalculateNewElo :: "int \<Rightarrow> real \<Rightarrow> real \<Rightarrow> int \<Rightarrow> int" where
  "CalculateNewElo oldElo actualScore expectedScore kFactor =
     (let newElo = of_int oldElo + of_int kFactor * (actualScore - expectedScore)
      in int_of_float (math_Round newElo))"


subsection \<open>Package store\<close>

text \<open>
  The tables are lists of rows. The SQL driver can refuse any statement (a locked or
  full database, a constraint, a lost file): \<open>failures\<close> lists the verdicts of the
  statements still to come, \<open>True\<close> for a statement that returns an error, and an
  exhausted list means that every further statement succeeds. The verdicts are an input
  of the model, so a theorem about an arbitrary \<open>DB\<close> covers every pattern of failure.
\<close>

datatype error = ErrNoRows | DriverError | TooFewTracks | TracksError error

record DB =
  tracks_table :: "Track list"
  ratings_table :: "Rating list"
  duels_table :: "Duel list"
  failures :: "bool list"

definition driver :: "DB \<Rightarrow> bool \<times> DB" where
  "driver db = (case failures db of [] \<Rightarrow> (False, db) | f # fs \<Rightarrow> (f, db\<lparr>failures := fs\<rparr>))"

text \<open>\<^verbatim>\<open>UPDATE ratings SET elo, wins, losses, draws, last_seen_at WHERE track_id = ?\<close>: a
  single statement, outside any transaction; no row with that key is no error.\<close>

definition UpdateRating :: "DB \<Rightarrow> Rating \<Rightarrow> (error + unit) \<times> DB" where
  "UpdateRating db rating =
     (let (failed, db1) = driver db in
      if failed then (Inl DriverError, db1)
      else (Inr (), db1\<lparr>ratings_table :=
              map (\<lambda>row. if TrackID row = TrackID rating
                          then row\<lparr>Elo := Elo rating, Wins := Wins rating, Losses := Losses rating,
                                   Draws := Draws rating, LastSeenAt := LastSeenAt rating\<rparr>
                          else row) (ratings_table db1)\<rparr>))"

text \<open>\<^verbatim>\<open>SELECT ... FROM ratings WHERE track_id = ?\<close>; \<^verbatim>\<open>Scan\<close> returns \<^verbatim>\<open>sql.ErrNoRows\<close> when
  no row has the key.\<close>

definition selectRating :: "Rating list \<Rightarrow> int \<Rightarrow> Rating option" where
  "selectRating rows trackID = find (\<lambda>row. TrackID row = trackID) rows"

definition GetRating :: "DB \<Rightarrow> int \<Rightarrow> (error + Rating) \<times> DB" where
  "GetRating db trackID =
     (let (failed, db1) = driver db in
      if failed then (Inl DriverError, db1)
      else (case selectRating (ratings_table db1) trackID of
              None \<Rightarrow> (Inl ErrNoRows, db1)
            | Some rating \<Rightarrow> (Inr rating, db1)))"

text \<open>\<^verbatim>\<open>INSERT INTO duels\<close>; the key is \<^verbatim>\<open>AUTOINCREMENT\<close> and no duel is ever deleted, so
  the new key is the number of rows plus one. The duel handed back is the caller's
  struct with its \<^verbatim>\<open>ID\<close> set. The one verdict is that of \<^verbatim>\<open>Exec\<close>: \<^verbatim>\<open>LastInsertId\<close> of
  the SQLite driver reads a stored number and returns no error.\<close>

definition CreateDuel :: "DB \<Rightarrow> Duel \<Rightarrow> (error + Duel) \<times> DB" where
  "CreateDuel db duel =
     (let (failed, db1) = driver db in
      if failed then (Inl DriverError, db1)
      else (let stored = duel\<lparr>DuelID := int (length (duels_table db1)) + 1\<rparr>
            in (Inr stored, db1\<lparr>duels_table := duels_table db1 @ [stored]\<rparr>)))"

text \<open>\<^verbatim>\<open>SELECT ... FROM tracks t JOIN ratings r ON t.id = r.track_id ORDER BY r.elo DESC\<close>.
  SQL leaves the order of rows of equal Elo open; the model keeps them in table
  order.\<close>

definition joined :: "DB \<Rightarrow> TrackWithRating list" where
  "joined db =
     concat (map (\<lambda>t. map (\<lambda>r. \<lparr>Track = t, Rating = r\<rparr>)
                          (filter (\<lambda>r. TrackID r = ID t) (ratings_table db))) (tracks_table db))"

definition GetAllTracksWithRatings :: "DB \<Rightarrow> (error + TrackWithRating list) \<times> DB" where
  "GetAllTracksWithRatings db =
     (let (failed, db1) = driver db in
      if failed then (Inl DriverError, db1)
      else (Inr (sort_key (\<lambda>x. - Elo (Rating x)) (joined db1)), db1))"

subsection \<open>Package elo: processing a duel\<close>

text \<open>The clock: the instant \<open>now\<close> stands for the readings of \<^verbatim>\<open>time.Now()\<close> during
  one call.\<close>

definition recordDuelWithoutEloChange ::
  "time \<Rightarrow> DB \<Rightarrow> int \<Rightarrow> int \<Rightarrow> int option \<Rightarrow> (error + unit) \<times> DB" where
  "recordDuelWithoutEloChange now db leftTrackID rightTrackID winnerID =
     (let duel = \<lparr>DuelID = 0, LeftTrackID = leftTrackID, RightTrackID = rightTrackID,
                  WinnerTrackID = winnerID, CreatedAt = now\<rparr>
      in case CreateDuel db duel of
           (Inl e, db1) \<Rightarrow> (Inl e, db1)
         | (Inr _, db1) \<Rightarrow> (Inr (), db1))"

text \<open>The switch on the result: the scores of the two sides, \<open>None\<close> for the skip and
  for the \<^verbatim>\<open>default\<close> branch, which both leave the function before any score is used.\<close>

definition scores :: "string \<Rightarrow> (real \<times> real) option" where
  "scores result =
     (if result = WinnerLeft then Some (1, 0)
      else if result = WinnerRight then Some (0, 1)
      else if result = WinnerDraw then Some (1 / 2, 1 / 2)
      else None)"

text \<open>The counters of a rating after the duel, from the side of the left track
  (\<open>isLeft\<close>) or of the right one.\<close>

definition countResult :: "string \<Rightarrow> bool \<Rightarrow> Rating \<Rightarrow> Rating" where
  "countResult result isLeft r =
     (if result = WinnerLeft then (if isLeft then r\<lparr>Wins := Wins r + 1\<rparr> else r\<lparr>Losses := Losses r + 1\<rparr>)
      else if result = WinnerRight then (if isLeft then r\<lparr>Losses := Losses r + 1\<rparr> else r\<lparr>Wins := Wins r + 1\<rparr>)
      else if result = WinnerDraw then r\<lparr>Draws := Draws r + 1\<rparr>
      else r)"

definition ProcessDuel :: "time \<Rightarrow> DB \<Rightarrow> int \<Rightarrow> int \<Rightarrow> string \<Rightarrow> (error + unit) \<times> DB" where
  "ProcessDuel now db leftTrackID rightTrackID result =
     (case GetRating db leftTrackID of
        (Inl e, db1) \<Rightarrow> (Inl e, db1)
      | (Inr leftRating, db1) \<Rightarrow>
     (case GetRating db1 rightTrackID of
        (Inl e, db2) \<Rightarrow> (Inl e, db2)
      | (Inr rightRating, db2) \<Rightarrow>
     (case scores result of
        None \<Rightarrow>
          (if result = WinnerSkip
           then recordDuelWithoutEloChange now db2 leftTrackID rightTrackID None
           else (Inr (), db2))
      | Some (leftScore, rightScore) \<Rightarrow>
     (let leftExpected = CalculateExpectedScore (Elo leftRating) (Elo rightRating);
          rightExpected = CalculateExpectedScore (Elo rightRating) (Elo leftRating);
          leftK = GetKFactor (GetTotalBattles leftRating);
          rightK = GetKFactor (GetTotalBattles rightRating);
          newLeftElo = CalculateNewElo (Elo leftRating) leftScore leftExpected leftK;
          newRightElo = CalculateNewElo (Elo rightRating) rightScore rightExpected rightK;
          leftRating' = countResult result True (leftRating\<lparr>Elo := newLeftElo, LastSeenAt := now\<rparr>);
          rightRating' = countResult result False (rightRating\<lparr>Elo := newRightElo, LastSeenAt := now\<rparr>)
      in case UpdateRating db2 leftRating' of
           (Inl e, db3) \<Rightarrow> (Inl e, db3)
         | (Inr _, db3) \<Rightarrow>
        (case UpdateRating db3 rightRating' of
           (Inl e, db4) \<Rightarrow> (Inl e, db4)
         | (Inr _, db4) \<Rightarrow>
        (let winnerID = (if result = WinnerLeft then Some leftTrackID
                         else if result = WinnerRight then Some rightTrackID
                         else None)
         in recordDuelWithoutEloChange now db4 leftTrackID rightTrackID winnerID))))))"

text \<open>The fields \<^verbatim>\<open>TrackID\<close> and \<^verbatim>\<open>Result\<close> of \<^verbatim>\<open>EloChange\<close> are called \<open>ChangedTrackID\<close>
  and \<open>DuelResult\<close> here.\<close>

record EloChange =
  ChangedTrackID :: int
  OldElo :: int
  NewElo :: int
  Change :: int
  DuelResult :: string

definition SimulateDuel :: "DB \<Rightarrow> int \<Rightarrow> int \<Rightarrow> string \<Rightarrow> (error + EloChange list) \<times> DB" where
  "SimulateDuel db leftTrackID rightTrackID result =
     (case GetRating db leftTrackID of
        (Inl e, db1) \<Rightarrow> (Inl e, db1)
      | (Inr leftRating, db1) \<Rightarrow>
     (case GetRating db1 rightTrackID of
        (Inl e, db2) \<Rightarrow> (Inl e, db2)
      | (Inr rightRating, db2) \<Rightarrow>
     (case scores result of
        None \<Rightarrow>
          (if result = WinnerSkip
           then (Inr [\<lparr>ChangedTrackID = leftTrackID, OldElo = Elo leftRating,
                       NewElo = Elo leftRating, Change = 0, DuelResult = result\<rparr>,
                      \<lparr>ChangedTrackID = rightTrackID, OldElo = Elo rightRating,
                       NewElo = Elo rightRating, Change = 0, DuelResult = result\<rparr>], db2)
           else (Inr [], db2))
      | Some (leftScore, rightScore) \<Rightarrow>
     (let leftExpected = CalculateExpectedScore (Elo leftRating) (Elo rightRating);
          rightExpected = CalculateExpectedScore (Elo rightRating) (Elo leftRating);
          leftK = GetKFactor (GetTotalBattles leftRating);
          rightK = GetKFactor (GetTotalBattles rightRating);
          newLeftElo = CalculateNewElo (Elo leftRating) leftScore leftExpected leftK;
          newRightElo = CalculateNewElo (Elo rightRating) rightScore rightExpected rightK
      in (Inr [\<lparr>ChangedTrackID = leftTrackID, OldElo = Elo leftRating, NewElo = newLeftElo,
                 Change = newLeftElo - Elo leftRating, DuelResult = result\<rparr>,
                \<lparr>ChangedTrackID = rightTrackID, OldElo = Elo rightRating, NewElo = newRightElo,
                 Change = newRightElo - Elo rightRating, DuelResult = result\<rparr>], db2)))))"

subsection \<open>The matchmaker\<close>

definition EloRange :: int where "EloRange = 100"
definition ExplorationRate :: real where "ExplorationRate = 15 / 100"
definition MinBattlesForBalance :: int where "MinBattlesForBalance = 5"

text \<open>
  The random source \<^verbatim>\<open>mm.rand\<close> is the infinite sequence of its raw draws, and each call
  consumes the first one: \<^verbatim>\<open>Intn(n)\<close> reduces it below \<open>n\<close>, \<^verbatim>\<open>Float64()\<close> maps it to one
  of the \<open>2 ^ 53\<close> equidistant points of the unit interval. Every sequence of results of the real
  generator is the image of some sequence of draws. \<^verbatim>\<open>Intn\<close> panics on an \<open>n\<close> that is
  not positive. A function that draws returns an \<open>option\<close>: \<open>None\<close> is a call that does
  not return, by that panic or by a loop without end.
\<close>

type_synonym rand = "nat \<Rightarrow> nat"

definition Intn :: "rand \<Rightarrow> nat \<Rightarrow> (nat \<times> rand) option" where
  "Intn rnd n = (if n = 0 then None else Some (rnd 0 mod n, \<lambda>i. rnd (Suc i)))"

definition Float64 :: "rand \<Rightarrow> real \<times> rand" where
  "Float64 rnd = (real (rnd 0 mod 2 ^ 53) / 2 ^ 53, \<lambda>i. rnd (Suc i))"

definition underplayedTrack :: "TrackWithRating \<Rightarrow> bool" where
  "underplayedTrack t = (GetTotalBattles (Rating t) < MinBattlesForBalance)"

definition experiencedTrack :: "TrackWithRating \<Rightarrow> bool" where
  "experiencedTrack t = (GetTotalBattles (Rating t) \<ge> MinBattlesForBalance)"

definition shouldExplore :: "rand \<Rightarrow> TrackWithRating list \<Rightarrow> bool \<times> rand" where
  "shouldExplore rnd tracks =
     (let underplayedTracks = length (filter underplayedTrack tracks) in
      if real underplayedTracks / real (length tracks) > 1 / 2 then (True, rnd)
      else (let (f, rnd1) = Float64 rnd in (f < ExplorationRate, rnd1)))"

text \<open>\<^verbatim>\<open>abs\<close> of the source, and the largest \<^verbatim>\<open>int\<close>, \<^verbatim>\<open>int(^uint(0) >> 1)\<close>.\<close>

definition abs_int :: "int \<Rightarrow> int" where
  "abs_int x = (if x < 0 then - x else x)"

definition MaxInt :: int where "MaxInt = 2 ^ 63 - 1"

definition eloDiff :: "TrackWithRating \<Rightarrow> TrackWithRating \<Rightarrow> int" where
  "eloDiff target candidate = abs_int (Elo (Rating candidate) - Elo (Rating target))"

text \<open>The two loops of \<^verbatim>\<open>findBestOpponent\<close>, on the pair of \<^verbatim>\<open>bestOpponent\<close> and
  \<^verbatim>\<open>bestDifference\<close>: the first accepts a candidate within \<open>EloRange\<close> only, the second
  any candidate.\<close>

fun withinRangeLoop ::
  "TrackWithRating \<Rightarrow> TrackWithRating list \<Rightarrow> TrackWithRating option \<times> int
     \<Rightarrow> TrackWithRating option \<times> int" where
  "withinRangeLoop target [] best = best"
| "withinRangeLoop target (candidate # rest) (bestOpponent, bestDifference) =
     (if ID (Track candidate) = ID (Track target)
      then withinRangeLoop target rest (bestOpponent, bestDifference)
      else if eloDiff target candidate \<le> EloRange \<and> eloDiff target candidate < bestDifference
      then withinRangeLoop target rest (Some candidate, eloDiff target candidate)
      else withinRangeLoop target rest (bestOpponent, bestDifference))"

fun closestLoop ::
  "TrackWithRating \<Rightarrow> TrackWithRating list \<Rightarrow> TrackWithRating option \<times> int
     \<Rightarrow> TrackWithRating option \<times> int" where
  "closestLoop target [] best = best"
| "closestLoop target (candidate # rest) (bestOpponent, bestDifference) =
     (if ID (Track candidate) = ID (Track target)
      then closestLoop target rest (bestOpponent, bestDifference)
      else if eloDiff target candidate < bestDifference
      then closestLoop target rest (Some candidate, eloDiff target candidate)
      else closestLoop target rest (bestOpponent, bestDifference))"

definition findBestOpponent :: "TrackWithRating \<Rightarrow> TrackWithRating list \<Rightarrow> TrackWithRating option" where
  "findBestOpponent target candidates =
     (let (bestOpponent, bestDifference) = withinRangeLoop target candidates (None, MaxInt) in
      if bestOpponent = None
      then fst (closestLoop target candidates (bestOpponent, bestDifference))
      else bestOpponent)"

text \<open>The loop of \<^verbatim>\<open>randomMatch\<close> that draws the right index again while it equals the
  left one. It ends on no sequence of draws that keeps hitting the left index.\<close>

partial_function (option) redrawRight :: "rand \<Rightarrow> nat \<Rightarrow> nat \<Rightarrow> nat \<Rightarrow> (nat \<times> rand) option" where
  "redrawRight rnd n leftIdx rightIdx =
     (if rightIdx = leftIdx
      then Option.bind (Intn rnd n) (\<lambda>(rightIdx', rnd1). redrawRight rnd1 n leftIdx rightIdx')
      else Some (rightIdx, rnd))"

declare redrawRight.simps [code]

type_synonym pair = "TrackWithRating option \<times> TrackWithRating option"

definition randomMatch :: "rand \<Rightarrow> TrackWithRating list \<Rightarrow> (pair \<times> rand) option" where
  "randomMatch rnd tracks =
     (if length tracks < 2 then Some ((None, None), rnd)
      else do {
        (leftIdx, rnd1) \<leftarrow> Intn rnd (length tracks);
        (rightIdx, rnd2) \<leftarrow> Intn rnd1 (length tracks);
        (rightIdx', rnd3) \<leftarrow> redrawRight rnd2 (length tracks) leftIdx rightIdx;
        Some ((Some (tracks ! leftIdx), Some (tracks ! rightIdx')), rnd3)
      })"

definition balancedMatch :: "rand \<Rightarrow> TrackWithRating list \<Rightarrow> (pair \<times> rand) option" where
  "balancedMatch rnd tracks =
     (let experienced = filter experiencedTrack tracks in
      if length experienced < 2 then randomMatch rnd tracks
      else do {
        (leftIdx, rnd1) \<leftarrow> Intn rnd (length experienced);
        let leftTrack = experienced ! leftIdx;
        Some ((Some leftTrack, findBestOpponent leftTrack experienced), rnd1)
      })"

text \<open>\<^verbatim>\<open>allOthers\<close> keeps the tracks whose position \<open>i\<close> in the list differs from the
  identifier of the left track: the source compares \<^verbatim>\<open>int64(i)\<close> with
  \<^verbatim>\<open>leftTrack.Track.ID\<close>.\<close>

definition explorationMatch :: "rand \<Rightarrow> TrackWithRating list \<Rightarrow> (pair \<times> rand) option" where
  "explorationMatch rnd tracks =
     (let underplayed = filter underplayedTrack tracks;
          experienced = filter (\<lambda>t. \<not> underplayedTrack t) tracks in
      if length underplayed = 0 then balancedMatch rnd tracks
      else do {
        (leftIdx, rnd1) \<leftarrow> Intn rnd (length underplayed);
        let leftTrack = underplayed ! leftIdx;
        let allOthers = map snd (filter (\<lambda>(i, track). int i \<noteq> ID (Track leftTrack))
                                        (enumerate 0 tracks));
        if length allOthers = 0 then Some ((None, None), rnd1)
        else do {
          (rightIdx, rnd2) \<leftarrow> Intn rnd1 (length allOthers);
          Some ((Some leftTrack, Some (allOthers ! rightIdx)), rnd2)
        }
      })"

definition GetNextMatch :: "DB \<Rightarrow> rand \<Rightarrow> ((error + pair) \<times> DB \<times> rand) option" where
  "GetNextMatch db rnd =
     (case GetAllTracksWithRatings db of
        (Inl e, db1) \<Rightarrow> Some (Inl (TracksError e), db1, rnd)
      | (Inr allTracks, db1) \<Rightarrow>
          if length allTracks < 2 then Some (Inl TooFewTracks, db1, rnd)
          else do {
            let (explore, rnd1) = shouldExplore rnd allTracks;
            ((leftTrack, rightTrack), rnd2) \<leftarrow>
               (if explore then explorationMatch rnd1 allTracks else balancedMatch rnd1 allTracks);
            ((leftTrack, rightTrack), rnd3) \<leftarrow>
               (if leftTrack = None \<or> rightTrack = None then randomMatch rnd2 allTracks
                else Some ((leftTrack, rightTrack), rnd2));
            Some (Inr (leftTrack, rightTrack), db1, rnd3)
          })"

subsection \<open>Example stores\<close>

text \<open>The rating that \<^verbatim>\<open>CreateTrack\<close> inserts with a new track.\<close>

definition freshRating :: "int \<Rightarrow> Rating" where
  "freshRating trackID =
     \<lparr>TrackID = trackID, Elo = 1200, Wins = 0, Losses = 0, Draws = 0, LastSeenAt = 0\<rparr>"

definition trackA :: Track where
  "trackA = \<lparr>ID = 1, SpotifyID = ''4uLU6hMCjMI75M1A2tKUQC'', Name = ''A'', Artist = ''X''\<rparr>"

definition trackB :: Track where
  "trackB = \<lparr>ID = 2, SpotifyID = ''7ouMYWpwJ422jRcDASZB7P'', Name = ''B'', Artist = ''Y''\<rparr>"

definition trackC :: Track where
  "trackC = \<lparr>ID = 3, SpotifyID = ''0VjIjW4GlUZAMYd2vXMi3b'', Name = ''C'', Artist = ''Z''\<rparr>"

text \<open>Two tracks just imported, and a store that answers every statement.\<close>

definition twoFresh :: DB where
  "twoFresh = \<lparr>tracks_table = [trackA, trackB],
               ratings_table = [freshRating 1, freshRating 2],
               duels_table = [], failures = []\<rparr>"

text \<open>The same store when the fourth statement to come is refused: in \<^verbatim>\<open>ProcessDuel\<close>
  that is the second \<^verbatim>\<open>UPDATE\<close>, after the two \<^verbatim>\<open>SELECT\<close>s and the first \<^verbatim>\<open>UPDATE\<close>.\<close>

definition fourthStatementFails :: DB where
  "fourthStatementFails = twoFresh\<lparr>failures := [False, False, False, True]\<rparr>"

text \<open>An established track rated 2000 against a track just imported.\<close>

definition strongAndFresh :: DB where
  "strongAndFresh =
     \<lparr>tracks_table = [trackA, trackB],
      ratings_table = [\<lparr>TrackID = 1, Elo = 2000, Wins = 60, Losses = 5, Draws = 0, LastSeenAt = 0\<rparr>,
                       freshRating 2],
      duels_table = [], failures = []\<rparr>"

text \<open>The two tracks after one duel that the first has won.\<close>

definition afterFirstDuel :: DB where
  "afterFirstDuel =
     \<lparr>tracks_table = [trackA, trackB],
      ratings_table = [\<lparr>TrackID = 1, Elo = 1216, Wins = 1, Losses = 0, Draws = 0, LastSeenAt = 1\<rparr>,
                       \<lparr>TrackID = 2, Elo = 1184, Wins = 0, Losses = 1, Draws = 0, LastSeenAt = 1\<rparr>],
      duels_table = [\<lparr>DuelID = 1, LeftTrackID = 1, RightTrackID = 2, WinnerTrackID = Some 1,
                      CreatedAt = 1\<rparr>],
      failures = []\<rparr>"

text \<open>A random source whose every draw is 0.\<close>

definition zeroDraws :: rand where
  "zeroDraws = (\<lambda>i. 0)"

text \<open>Three experienced tracks, as \<^verbatim>\<open>GetAllTracksWithRatings\<close> returns them.\<close>

definition threeExperienced :: "TrackWithRating list" where
  "threeExperienced =
     [\<lparr>Track = trackA,
       Rating = \<lparr>TrackID = 1, Elo = 1300, Wins = 6, Losses = 1, Draws = 0, LastSeenAt = 9\<rparr>\<rparr>,
      \<lparr>Track = trackB,
       Rating = \<lparr>TrackID = 2, Elo = 1250, Wins = 4, Losses = 2, Draws = 1, LastSeenAt = 9\<rparr>\<rparr>,
      \<lparr>Track = trackC,
       Rating = \<lparr>TrackID = 3, Elo = 1050, Wins = 1, Losses = 6, Draws = 0, LastSeenAt = 8\<rparr>\<rparr>]"

section \<open>Properties\<close>

subsection \<open>The store\<close>

text \<open>The verdict of the driver changes no table, and a store without a scheduled failure
  answers every statement.\<close>

lemma driver_tables [simp]:
  "tracks_table (snd (driver db)) = tracks_table db"
  "ratings_table (snd (driver db)) = ratings_table db"
  "duels_table (snd (driver db)) = duels_table db"
  by (simp_all add: driver_def split: list.splits)

lemma driver_reliable:
  "True \<notin> set (failures db) \<Longrightarrow> \<not> fst (driver db) \<and> True \<notin> set (failures (snd (driver db)))"
  by (auto simp: driver_def split: list.splits)

lemma GetRating_eq:
  "GetRating db k =
     ((if fst (driver db) then Inl DriverError
       else case selectRating (ratings_table db) k of None \<Rightarrow> Inl ErrNoRows | Some r \<Rightarrow> Inr r),
      snd (driver db))"
  by (cases "driver db") (use driver_tables[of db] in \<open>auto simp: GetRating_def split: option.splits\<close>)

lemma UpdateRating_eq:
  "UpdateRating db rating =
     (if fst (driver db) then (Inl DriverError, snd (driver db))
      else (Inr (), (snd (driver db))\<lparr>ratings_table :=
              map (\<lambda>row. if TrackID row = TrackID rating
                          then row\<lparr>Elo := Elo rating, Wins := Wins rating, Losses := Losses rating,
                                   Draws := Draws rating, LastSeenAt := LastSeenAt rating\<rparr>
                          else row) (ratings_table db)\<rparr>))"
  by (cases "driver db") (use driver_tables[of db] in \<open>auto simp: UpdateRating_def\<close>)

lemma recordDuel_eq:
  "recordDuelWithoutEloChange now db l r w =
     (if fst (driver db) then (Inl DriverError, snd (driver db))
      else (Inr (), (snd (driver db))\<lparr>duels_table := duels_table db @
              [\<lparr>DuelID = int (length (duels_table db)) + 1, LeftTrackID = l, RightTrackID = r,
                WinnerTrackID = w, CreatedAt = now\<rparr>]\<rparr>))"
  by (cases "driver db")
     (use driver_tables[of db] in \<open>auto simp: recordDuelWithoutEloChange_def CreateDuel_def Let_def\<close>)

lemma selectRating_key: "selectRating rows k = Some a \<Longrightarrow> TrackID a = k"
  by (induction rows) (auto simp: selectRating_def split: if_splits)

lemma overwrite_row:
  "TrackID (row::Rating) = TrackID x \<Longrightarrow>
   row\<lparr>Elo := Elo x, Wins := Wins x, Losses := Losses x, Draws := Draws x, LastSeenAt := LastSeenAt x\<rparr> = x"
  by (cases row, cases x) simp

lemma selectRating_update:
  "selectRating (map (\<lambda>row. if TrackID row = TrackID x
                      then row\<lparr>Elo := Elo x, Wins := Wins x, Losses := Losses x,
                               Draws := Draws x, LastSeenAt := LastSeenAt x\<rparr>
                      else row) rows) k =
   (if k = TrackID x then map_option (\<lambda>_. x) (selectRating rows k) else selectRating rows k)"
  by (induction rows) (auto simp: selectRating_def overwrite_row)

lemma countResult_fields [simp]:
  "Elo (countResult res s x) = Elo x" "TrackID (countResult res s x) = TrackID x"
  by (simp_all add: countResult_def)

lemma UpdateRating_ok:
  assumes "True \<notin> set (failures db)"
  shows "\<exists>db'. UpdateRating db x = (Inr (), db') \<and> True \<notin> set (failures db') \<and>
           tracks_table db' = tracks_table db \<and> duels_table db' = duels_table db \<and>
           (\<forall>k. selectRating (ratings_table db') k =
                  (if k = TrackID x then map_option (\<lambda>_. x) (selectRating (ratings_table db) k)
                   else selectRating (ratings_table db) k))"
  using driver_reliable[OF assms] by (simp add: UpdateRating_eq selectRating_update)

lemma GetRating_ok:
  assumes "True \<notin> set (failures db)" and "selectRating (ratings_table db) k = Some a"
  shows "\<exists>db'. GetRating db k = (Inr a, db') \<and> True \<notin> set (failures db') \<and>
           tracks_table db' = tracks_table db \<and> duels_table db' = duels_table db \<and>
           ratings_table db' = ratings_table db"
  using driver_reliable[OF assms(1)] assms(2) by (simp add: GetRating_eq)

lemma recordDuel_ok:
  assumes "True \<notin> set (failures db)"
  shows "\<exists>db'. recordDuelWithoutEloChange now db l r w = (Inr (), db') \<and>
           tracks_table db' = tracks_table db \<and> ratings_table db' = ratings_table db"
  using driver_reliable[OF assms] by (simp add: recordDuel_eq)

subsection \<open>Scores and rounding\<close>

lemma scores_invalid:
  "res \<notin> {WinnerLeft, WinnerRight, WinnerDraw, WinnerSkip} \<Longrightarrow> scores res = None \<and> res \<noteq> WinnerSkip"
  by (simp add: scores_def)

lemma scores_skip: "scores WinnerSkip = None"
  by (simp add: scores_def WinnerSkip_def WinnerLeft_def WinnerRight_def WinnerDraw_def)

lemma scores_left: "scores WinnerLeft = Some (1, 0)"
  by (simp add: scores_def)

lemma scores_right: "scores WinnerRight = Some (0, 1)"
  by (simp add: scores_def WinnerLeft_def WinnerRight_def)

lemma scores_draw: "scores WinnerDraw = Some (1 / 2, 1 / 2)"
  by (simp add: scores_def WinnerLeft_def WinnerRight_def WinnerDraw_def)

text \<open>\<^verbatim>\<open>int(math.Round(x))\<close> in closed form, and its distance to \<open>x\<close>.\<close>

lemma go_round: "int_of_float (math_Round x) = (if x < 0 then - \<lfloor>- x + 1 / 2\<rfloor> else \<lfloor>x + 1 / 2\<rfloor>)"
  unfolding math_Round_def
  by (simp add: int_of_float_def del: of_int_minus add: of_int_minus[symmetric])






lemma CalculateNewElo_eq:
  "CalculateNewElo old a e k =
     (let x = of_int old + of_int k * (a - e) in if x < 0 then - \<lfloor>- x + 1 / 2\<rfloor> else \<lfloor>x + 1 / 2\<rfloor>)"
  by (simp add: CalculateNewElo_def go_round Let_def)


lemma expected_equal: "CalculateExpectedScore x x = 1 / 2"
  by (simp add: CalculateExpectedScore_def)






subsection \<open>The engine on a store that answers\<close>

lemma scored_on_reliable_store:
  assumes a: "selectRating (ratings_table db) l = Some a"
    and b: "selectRating (ratings_table db) r = Some b"
    and lr: "l \<noteq> r" and ok: "True \<notin> set (failures db)"
    and sc: "scores res = Some (sl, sr)"
  shows "\<exists>db'. ProcessDuel now db l r res = (Inr (), db') \<and>
           selectRating (ratings_table db') l =
             Some (countResult res True
                    (a\<lparr>Elo := CalculateNewElo (Elo a) sl (CalculateExpectedScore (Elo a) (Elo b))
                                 (GetKFactor (GetTotalBattles a)),
                       LastSeenAt := now\<rparr>)) \<and>
           selectRating (ratings_table db') r =
             Some (countResult res False
                    (b\<lparr>Elo := CalculateNewElo (Elo b) sr (CalculateExpectedScore (Elo b) (Elo a))
                                 (GetKFactor (GetTotalBattles b)),
                       LastSeenAt := now\<rparr>))"
proof -
  define L where "L = countResult res True
                    (a\<lparr>Elo := CalculateNewElo (Elo a) sl (CalculateExpectedScore (Elo a) (Elo b))
                                 (GetKFactor (GetTotalBattles a)),
                       LastSeenAt := now\<rparr>)"
  define R where "R = countResult res False
                    (b\<lparr>Elo := CalculateNewElo (Elo b) sr (CalculateExpectedScore (Elo b) (Elo a))
                                 (GetKFactor (GetTotalBattles b)),
                       LastSeenAt := now\<rparr>)"
  define w where "w = (if res = WinnerLeft then Some l else if res = WinnerRight then Some r else None)"
  have kL: "TrackID L = l" and kR: "TrackID R = r"
    using a b by (simp_all add: L_def R_def selectRating_key)
  obtain d1 where g1: "GetRating db l = (Inr a, d1)" and f1: "True \<notin> set (failures d1)"
    and t1: "ratings_table d1 = ratings_table db"
    using GetRating_ok[OF ok a] by blast
  obtain d2 where g2: "GetRating d1 r = (Inr b, d2)" and f2: "True \<notin> set (failures d2)"
    and t2: "ratings_table d2 = ratings_table db"
    using GetRating_ok[OF f1, of r b] b t1 by auto
  obtain d3 where u3: "UpdateRating d2 L = (Inr (), d3)" and f3: "True \<notin> set (failures d3)"
    and s3: "\<And>k. selectRating (ratings_table d3) k =
                  (if k = TrackID L then map_option (\<lambda>_. L) (selectRating (ratings_table d2) k)
                   else selectRating (ratings_table d2) k)"
    using UpdateRating_ok[OF f2, of L] by blast
  obtain d4 where u4: "UpdateRating d3 R = (Inr (), d4)" and f4: "True \<notin> set (failures d4)"
    and s4: "\<And>k. selectRating (ratings_table d4) k =
                  (if k = TrackID R then map_option (\<lambda>_. R) (selectRating (ratings_table d3) k)
                   else selectRating (ratings_table d3) k)"
    using UpdateRating_ok[OF f3, of R] by blast
  obtain d5 where c5: "recordDuelWithoutEloChange now d4 l r w = (Inr (), d5)"
    and t5: "ratings_table d5 = ratings_table d4"
    using recordDuel_ok[OF f4] by blast
  have "ProcessDuel now db l r res = (Inr (), d5)"
    by (simp add: ProcessDuel_def g1 g2 sc Let_def u3[unfolded L_def] u4[unfolded R_def]
          c5[unfolded w_def])
  moreover have "selectRating (ratings_table d5) l = Some L"
    using lr by (simp add: t5 s4 s3 kL kR t2 a)
  moreover have "selectRating (ratings_table d5) r = Some R"
    using lr by (simp add: t5 s4 s3 kL kR t2 b)
  ultimately show ?thesis
    unfolding L_def R_def by blast
qed

lemma skip_on_reliable_store:
  assumes a: "selectRating (ratings_table db) l = Some a"
    and b: "selectRating (ratings_table db) r = Some b"
    and ok: "True \<notin> set (failures db)"
  shows "fst (ProcessDuel now db l r WinnerSkip) = Inr () \<and>
         ratings_table (snd (ProcessDuel now db l r WinnerSkip)) = ratings_table db"
  using a b scores_skip driver_reliable[OF ok] driver_reliable[of "snd (driver db)"]
    driver_reliable[of "snd (driver (snd (driver db)))"]
  by (simp add: ProcessDuel_def GetRating_eq recordDuel_eq)

lemma simulation_reads_only:
  "tracks_table (snd (SimulateDuel db l r res)) = tracks_table db \<and>
   ratings_table (snd (SimulateDuel db l r res)) = ratings_table db \<and>
   duels_table (snd (SimulateDuel db l r res)) = duels_table db"
  by (simp add: SimulateDuel_def GetRating_eq Let_def split: option.splits prod.splits)

lemma simulated_scored:
  assumes a: "selectRating (ratings_table db) l = Some a"
    and b: "selectRating (ratings_table db) r = Some b"
    and ok: "True \<notin> set (failures db)"
    and sc: "scores res = Some (sl, sr)"
  shows "fst (SimulateDuel db l r res) =
           Inr [\<lparr>ChangedTrackID = l, OldElo = Elo a,
                  NewElo = CalculateNewElo (Elo a) sl (CalculateExpectedScore (Elo a) (Elo b))
                             (GetKFactor (GetTotalBattles a)),
                  Change = CalculateNewElo (Elo a) sl (CalculateExpectedScore (Elo a) (Elo b))
                             (GetKFactor (GetTotalBattles a)) - Elo a,
                  DuelResult = res\<rparr>,
                \<lparr>ChangedTrackID = r, OldElo = Elo b,
                  NewElo = CalculateNewElo (Elo b) sr (CalculateExpectedScore (Elo b) (Elo a))
                             (GetKFactor (GetTotalBattles b)),
                  Change = CalculateNewElo (Elo b) sr (CalculateExpectedScore (Elo b) (Elo a))
                             (GetKFactor (GetTotalBattles b)) - Elo b,
                  DuelResult = res\<rparr>]"
  using a b sc driver_reliable[OF ok] driver_reliable[of "snd (driver db)"]
  by (simp add: SimulateDuel_def GetRating_eq Let_def)

lemma simulated_skip:
  assumes a: "selectRating (ratings_table db) l = Some a"
    and b: "selectRating (ratings_table db) r = Some b"
    and ok: "True \<notin> set (failures db)"
  shows "fst (SimulateDuel db l r WinnerSkip) =
           Inr [\<lparr>ChangedTrackID = l, OldElo = Elo a, NewElo = Elo a, Change = 0,
                  DuelResult = WinnerSkip\<rparr>,
                \<lparr>ChangedTrackID = r, OldElo = Elo b, NewElo = Elo b, Change = 0,
                  DuelResult = WinnerSkip\<rparr>]"
  using a b scores_skip driver_reliable[OF ok] driver_reliable[of "snd (driver db)"]
  by (simp add: SimulateDuel_def GetRating_eq Let_def)

subsection \<open>The loops of findBestOpponent\<close>

lemma eloDiff_abs: "eloDiff t c = \<bar>Elo (Rating c) - Elo (Rating t)\<bar>"
  by (simp add: eloDiff_def abs_int_def)

lemma withinRangeLoop_inv:
  "case withinRangeLoop t cs (b, d) of (b', d') \<Rightarrow>
     d' \<le> d \<and>
     (\<forall>c\<in>set cs. ID (Track c) \<noteq> ID (Track t) \<and> eloDiff t c \<le> EloRange \<longrightarrow> d' \<le> eloDiff t c) \<and>
     ((b', d') = (b, d) \<or>
      (\<exists>c\<in>set cs. ID (Track c) \<noteq> ID (Track t) \<and> eloDiff t c \<le> EloRange \<and>
                   b' = Some c \<and> d' = eloDiff t c))"
proof (induction cs arbitrary: b d)
  case Nil
  show ?case by simp
next
  case (Cons c cs)
  show ?case
  proof (cases "ID (Track c) = ID (Track t)")
    case True
    with Cons.IH[where b=b and d=d] show ?thesis by (auto split: prod.splits)
  next
    case False
    show ?thesis
    proof (cases "eloDiff t c \<le> EloRange \<and> eloDiff t c < d")
      case True
      with False Cons.IH[where b="Some c" and d="eloDiff t c"] show ?thesis
        by (fastforce split: prod.splits)
    next
      case no: False
      with False Cons.IH[where b=b and d=d] show ?thesis
        by (fastforce split: prod.splits)
    qed
  qed
qed

lemma closestLoop_inv:
  "case closestLoop t cs (b, d) of (b', d') \<Rightarrow>
     d' \<le> d \<and>
     (\<forall>c\<in>set cs. ID (Track c) \<noteq> ID (Track t) \<longrightarrow> d' \<le> eloDiff t c) \<and>
     ((b', d') = (b, d) \<or>
      (\<exists>c\<in>set cs. ID (Track c) \<noteq> ID (Track t) \<and> b' = Some c \<and> d' = eloDiff t c))"
proof (induction cs arbitrary: b d)
  case Nil
  show ?case by simp
next
  case (Cons c cs)
  show ?case
  proof (cases "ID (Track c) = ID (Track t)")
    case True
    with Cons.IH[where b=b and d=d] show ?thesis by (auto split: prod.splits)
  next
    case False
    show ?thesis
    proof (cases "eloDiff t c < d")
      case True
      with False Cons.IH[where b="Some c" and d="eloDiff t c"] show ?thesis
        by (fastforce split: prod.splits)
    next
      case no: False
      with False Cons.IH[where b=b and d=d] show ?thesis
        by (fastforce split: prod.splits)
    qed
  qed
qed

lemma findBestOpponent_closest:
  assumes ex: "\<exists>c\<in>set cs. ID (Track c) \<noteq> ID (Track t)"
    and small: "\<forall>c\<in>set cs. eloDiff t c < MaxInt"
  shows "\<exists>r\<in>set cs. findBestOpponent t cs = Some r \<and> ID (Track r) \<noteq> ID (Track t) \<and>
           (\<forall>c\<in>set cs. ID (Track c) \<noteq> ID (Track t) \<longrightarrow> eloDiff t r \<le> eloDiff t c)"
proof -
  obtain b1 d1 where w: "withinRangeLoop t cs (None, MaxInt) = (b1, d1)"
    by (cases "withinRangeLoop t cs (None, MaxInt)")
  from withinRangeLoop_inv[where t=t and cs=cs and b=None and d=MaxInt] w
  have w1: "\<forall>c\<in>set cs. ID (Track c) \<noteq> ID (Track t) \<and> eloDiff t c \<le> EloRange \<longrightarrow> d1 \<le> eloDiff t c"
    and w2: "(b1, d1) = (None, MaxInt) \<or>
       (\<exists>c\<in>set cs. ID (Track c) \<noteq> ID (Track t) \<and> eloDiff t c \<le> EloRange \<and>
                    b1 = Some c \<and> d1 = eloDiff t c)"
    by simp_all
  show ?thesis
  proof (cases b1)
    case (Some r)
    with w2 have r: "r \<in> set cs" "ID (Track r) \<noteq> ID (Track t)" "eloDiff t r \<le> EloRange"
      "d1 = eloDiff t r"
      by auto
    have "eloDiff t r \<le> eloDiff t c" if "c \<in> set cs" "ID (Track c) \<noteq> ID (Track t)" for c
    proof (cases "eloDiff t c \<le> EloRange")
      case True
      with w1 that r(4) show ?thesis by auto
    next
      case False
      with r(3) show ?thesis by simp
    qed
    moreover have "findBestOpponent t cs = Some r"
      by (simp add: findBestOpponent_def w Some)
    ultimately show ?thesis using r by blast
  next
    case None
    with w2 have d1: "d1 = MaxInt" by auto
    obtain b2 d2 where c: "closestLoop t cs (None, MaxInt) = (b2, d2)"
      by (cases "closestLoop t cs (None, MaxInt)")
    from closestLoop_inv[where t=t and cs=cs and b=None and d=MaxInt] c
    have c1: "\<forall>c\<in>set cs. ID (Track c) \<noteq> ID (Track t) \<longrightarrow> d2 \<le> eloDiff t c"
      and c2: "(b2, d2) = (None, MaxInt) \<or>
        (\<exists>c\<in>set cs. ID (Track c) \<noteq> ID (Track t) \<and> b2 = Some c \<and> d2 = eloDiff t c)"
      by simp_all
    have "(b2, d2) \<noteq> (None, MaxInt)"
    proof
      assume "(b2, d2) = (None, MaxInt)"
      with c1 ex small show False by fastforce
    qed
    with c2 obtain r where r: "r \<in> set cs" "ID (Track r) \<noteq> ID (Track t)" "b2 = Some r"
      "d2 = eloDiff t r"
      by auto
    have "findBestOpponent t cs = Some r"
      by (simp add: findBestOpponent_def w None d1 c r(3))
    with r c1 show ?thesis by blast
  qed
qed

subsection \<open>The example stores\<close>

lemmas store_examples = twoFresh_def fourthStatementFails_def strongAndFresh_def afterFirstDuel_def
  freshRating_def trackA_def trackB_def trackC_def

lemmas winner_names = WinnerLeft_def WinnerRight_def WinnerDraw_def WinnerSkip_def

lemma twoFresh_rows:
  "selectRating (ratings_table twoFresh) 1 = Some (freshRating 1)"
  "selectRating (ratings_table twoFresh) 2 = Some (freshRating 2)"
  "selectRating (ratings_table twoFresh) 3 = None"
  "True \<notin> set (failures twoFresh)"
  by (simp_all add: selectRating_def store_examples)

lemma afterFirstDuel_rows:
  "selectRating (ratings_table afterFirstDuel) 1 =
     Some \<lparr>TrackID = 1, Elo = 1216, Wins = 1, Losses = 0, Draws = 0, LastSeenAt = 1\<rparr>"
  "selectRating (ratings_table afterFirstDuel) 2 =
     Some \<lparr>TrackID = 2, Elo = 1184, Wins = 0, Losses = 1, Draws = 0, LastSeenAt = 1\<rparr>"
  "True \<notin> set (failures afterFirstDuel)"
  by (simp_all add: selectRating_def store_examples)

lemma threeExperienced_all: "filter experiencedTrack threeExperienced = threeExperienced"
  by (simp add: threeExperienced_def experiencedTrack_def GetTotalBattles_def
        MinBattlesForBalance_def)

section \<open>The claims\<close>

subsection \<open>Invalid results\<close>

text \<open>C1, as the code has it. \<^verbatim>\<open>ProcessDuel\<close> has no error for a result outside
  \<open>left\<close>, \<open>right\<close>, \<open>draw\<close> and \<open>skip\<close>: the \<^verbatim>\<open>default\<close> branch of its switch returns
  \<^verbatim>\<open>nil\<close>. For such a result the call writes nothing, whatever the store answers: the
  tracks, the ratings and the duels are the ones before the call. When both ratings exist
  and no statement is refused, the call returns \<^verbatim>\<open>nil\<close>, that is success.\<close>

theorem ProcessDuel_invalid_result_is_ignored:
  assumes "res \<notin> {WinnerLeft, WinnerRight, WinnerDraw, WinnerSkip}"
  shows "(case ProcessDuel now db l r res of (out, db') \<Rightarrow>
           tracks_table db' = tracks_table db \<and> ratings_table db' = ratings_table db \<and>
           duels_table db' = duels_table db \<and>
           (selectRating (ratings_table db) l \<noteq> None \<and> selectRating (ratings_table db) r \<noteq> None \<and>
            True \<notin> set (failures db) \<longrightarrow> out = Inr ()))"
  using scores_invalid[OF assms] driver_reliable[of db] driver_reliable[of "snd (driver db)"]
  by (auto simp: ProcessDuel_def GetRating_eq split: option.splits)

text \<open>The theorem at the result \<open>win\<close>, on the store after a first duel: the call
  succeeds and the tables are unchanged.\<close>

theorem ProcessDuel_invalid_result_is_ignored_witness:
  "''win'' \<notin> {WinnerLeft, WinnerRight, WinnerDraw, WinnerSkip} \<and>
   fst (ProcessDuel 7 afterFirstDuel 1 2 ''win'') = Inr () \<and>
   ratings_table (snd (ProcessDuel 7 afterFirstDuel 1 2 ''win'')) = ratings_table afterFirstDuel \<and>
   duels_table (snd (ProcessDuel 7 afterFirstDuel 1 2 ''win'')) = duels_table afterFirstDuel"
proof -
  have h: "''win'' \<notin> {WinnerLeft, WinnerRight, WinnerDraw, WinnerSkip}"
    by (simp add: winner_names)
  from ProcessDuel_invalid_result_is_ignored[OF h, where now=7 and db=afterFirstDuel
         and l=1 and r=2]
    afterFirstDuel_rows h
  show ?thesis by (simp split: prod.splits)
qed

text \<open>The statement that such a call fails is false: on two fresh tracks the result
  \<open>tie\<close> is accepted, the call returns \<^verbatim>\<open>nil\<close> and the store is the one before.\<close>

theorem ProcessDuel_invalid_result_counterexample:
  "''tie'' \<notin> {WinnerLeft, WinnerRight, WinnerDraw, WinnerSkip} \<and>
   ProcessDuel 7 twoFresh 1 2 ''tie'' = (Inr (), twoFresh)"
  by (simp add: ProcessDuel_def GetRating_def driver_def selectRating_def scores_def
        store_examples winner_names)

subsection \<open>A refused write\<close>

text \<open>C2. \<^verbatim>\<open>ProcessDuel\<close> sends the two \<^verbatim>\<open>UPDATE\<close>s one after the other, outside any
  transaction (\<^verbatim>\<open>CreateTrack\<close> of the same store wraps its two inserts in one). When the
  driver refuses the second \<^verbatim>\<open>UPDATE\<close>, the call returns the error, and the store keeps
  the left rating of after the duel (1216, one win) beside the right rating of before
  it (1200, no loss); no duel is recorded.\<close>

theorem ProcessDuel_second_update_refused:
  "fst (ProcessDuel 7 fourthStatementFails 1 2 WinnerLeft) = Inl DriverError \<and>
   ratings_table (snd (ProcessDuel 7 fourthStatementFails 1 2 WinnerLeft)) =
     [\<lparr>TrackID = 1, Elo = 1216, Wins = 1, Losses = 0, Draws = 0, LastSeenAt = 7\<rparr>, freshRating 2] \<and>
   duels_table (snd (ProcessDuel 7 fourthStatementFails 1 2 WinnerLeft)) = []"
  by (simp add: ProcessDuel_def GetRating_def UpdateRating_def driver_def selectRating_def
        scores_def countResult_def expected_equal CalculateNewElo_eq GetKFactor_def
        GetTotalBattles_def MaxK_def NewPlayerThreshold_def Let_def store_examples)

subsection \<open>A pair of one track\<close>

text \<open>C3. \<^verbatim>\<open>explorationMatch\<close> builds \<^verbatim>\<open>allOthers\<close> by comparing the position of a track
  in the list with the identifier of the left track, so the left track itself can stay
  among the candidates. On the store after a first duel (track 1 first, then track 2;
  both underplayed, so exploration is forced) and a first draw of 0, the left track is
  track 1, \<^verbatim>\<open>allOthers\<close> drops position 1, which is track 2, and keeps track 1 alone:
  \<^verbatim>\<open>GetNextMatch\<close> returns track 1 against itself.\<close>

theorem GetNextMatch_pairs_track_with_itself:
  "map_option fst (GetNextMatch afterFirstDuel zeroDraws) =
     Some (Inr (Some \<lparr>Track = trackA,
                      Rating = \<lparr>TrackID = 1, Elo = 1216, Wins = 1, Losses = 0, Draws = 0,
                                 LastSeenAt = 1\<rparr>\<rparr>,
                Some \<lparr>Track = trackA,
                      Rating = \<lparr>TrackID = 1, Elo = 1216, Wins = 1, Losses = 0, Draws = 0,
                                 LastSeenAt = 1\<rparr>\<rparr>))"
  by (simp add: GetNextMatch_def GetAllTracksWithRatings_def joined_def driver_def
        shouldExplore_def explorationMatch_def underplayedTrack_def GetTotalBattles_def
        MinBattlesForBalance_def Intn_def zeroDraws_def enumerate_eq_zip Let_def store_examples)

subsection \<open>Rounding of the new Elo\<close>




subsection \<open>The winner gains, the loser loses\<close>




subsection \<open>Simulation and processing\<close>

text \<open>C6. For two different tracks whose ratings exist, one of the four results and a
  store that refuses no statement: \<^verbatim>\<open>SimulateDuel\<close> returns two changes and leaves the
  tracks, the ratings and the duels as they were; \<^verbatim>\<open>ProcessDuel\<close> succeeds, and the Elo
  it stores for each side is the \<^verbatim>\<open>NewElo\<close> of the simulated change, whose \<^verbatim>\<open>OldElo\<close> is
  the Elo before the call and whose \<^verbatim>\<open>Change\<close> is the difference of the stored Elos.\<close>

theorem SimulateDuel_agrees_with_ProcessDuel:
  assumes a: "selectRating (ratings_table db) l = Some a"
    and b: "selectRating (ratings_table db) r = Some b"
    and lr: "l \<noteq> r" and ok: "True \<notin> set (failures db)"
    and res: "res \<in> {WinnerLeft, WinnerRight, WinnerDraw, WinnerSkip}"
  shows "\<exists>cl cr a' b'.
           fst (SimulateDuel db l r res) = Inr [cl, cr] \<and>
           tracks_table (snd (SimulateDuel db l r res)) = tracks_table db \<and>
           ratings_table (snd (SimulateDuel db l r res)) = ratings_table db \<and>
           duels_table (snd (SimulateDuel db l r res)) = duels_table db \<and>
           fst (ProcessDuel now db l r res) = Inr () \<and>
           selectRating (ratings_table (snd (ProcessDuel now db l r res))) l = Some a' \<and>
           selectRating (ratings_table (snd (ProcessDuel now db l r res))) r = Some b' \<and>
           OldElo cl = Elo a \<and> NewElo cl = Elo a' \<and> Change cl = Elo a' - Elo a \<and>
           OldElo cr = Elo b \<and> NewElo cr = Elo b' \<and> Change cr = Elo b' - Elo b"
proof (cases "res = WinnerSkip")
  case True
  show ?thesis
    unfolding True
    using simulated_skip[OF a b ok] skip_on_reliable_store[OF a b ok, of now] a b
      simulation_reads_only[of db l r WinnerSkip]
    by simp
next
  case False
  with res obtain sl sr where sc: "scores res = Some (sl, sr)"
    using scores_left scores_right scores_draw by auto
  obtain db' where p: "ProcessDuel now db l r res = (Inr (), db')"
    and pl: "selectRating (ratings_table db') l =
             Some (countResult res True
                    (a\<lparr>Elo := CalculateNewElo (Elo a) sl (CalculateExpectedScore (Elo a) (Elo b))
                                 (GetKFactor (GetTotalBattles a)),
                       LastSeenAt := now\<rparr>))"
    and pr: "selectRating (ratings_table db') r =
             Some (countResult res False
                    (b\<lparr>Elo := CalculateNewElo (Elo b) sr (CalculateExpectedScore (Elo b) (Elo a))
                                 (GetKFactor (GetTotalBattles b)),
                       LastSeenAt := now\<rparr>))"
    using scored_on_reliable_store[OF a b lr ok sc, of now] by blast
  show ?thesis
    using simulated_scored[OF a b ok sc] simulation_reads_only[of db l r res]
    by (simp add: p pl pr)
qed

text \<open>The theorem at a draw on the store after a first duel.\<close>

theorem SimulateDuel_agrees_with_ProcessDuel_witness:
  "selectRating (ratings_table afterFirstDuel) 1 =
     Some \<lparr>TrackID = 1, Elo = 1216, Wins = 1, Losses = 0, Draws = 0, LastSeenAt = 1\<rparr> \<and>
   selectRating (ratings_table afterFirstDuel) 2 =
     Some \<lparr>TrackID = 2, Elo = 1184, Wins = 0, Losses = 1, Draws = 0, LastSeenAt = 1\<rparr> \<and>
   (1::int) \<noteq> 2 \<and> True \<notin> set (failures afterFirstDuel) \<and>
   WinnerDraw \<in> {WinnerLeft, WinnerRight, WinnerDraw, WinnerSkip} \<and>
   (\<exists>cl cr a' b'.
       fst (SimulateDuel afterFirstDuel 1 2 WinnerDraw) = Inr [cl, cr] \<and>
       ratings_table (snd (SimulateDuel afterFirstDuel 1 2 WinnerDraw)) = ratings_table afterFirstDuel \<and>
       duels_table (snd (SimulateDuel afterFirstDuel 1 2 WinnerDraw)) = duels_table afterFirstDuel \<and>
       fst (ProcessDuel 7 afterFirstDuel 1 2 WinnerDraw) = Inr () \<and>
       selectRating (ratings_table (snd (ProcessDuel 7 afterFirstDuel 1 2 WinnerDraw))) 1 = Some a' \<and>
       selectRating (ratings_table (snd (ProcessDuel 7 afterFirstDuel 1 2 WinnerDraw))) 2 = Some b' \<and>
       NewElo cl = Elo a' \<and> Change cl = Elo a' - 1216 \<and>
       NewElo cr = Elo b' \<and> Change cr = Elo b' - 1184)"
proof -
  have ne: "(1::int) \<noteq> 2" by simp
  have res: "WinnerDraw \<in> {WinnerLeft, WinnerRight, WinnerDraw, WinnerSkip}" by simp
  from SimulateDuel_agrees_with_ProcessDuel[OF afterFirstDuel_rows(1) afterFirstDuel_rows(2) ne afterFirstDuel_rows(3) res, where now=7]
  obtain cl cr a' b' where
    "fst (SimulateDuel afterFirstDuel 1 2 WinnerDraw) = Inr [cl, cr]"
    "ratings_table (snd (SimulateDuel afterFirstDuel 1 2 WinnerDraw)) = ratings_table afterFirstDuel"
    "duels_table (snd (SimulateDuel afterFirstDuel 1 2 WinnerDraw)) = duels_table afterFirstDuel"
    "fst (ProcessDuel 7 afterFirstDuel 1 2 WinnerDraw) = Inr ()"
    "selectRating (ratings_table (snd (ProcessDuel 7 afterFirstDuel 1 2 WinnerDraw))) 1 = Some a'"
    "selectRating (ratings_table (snd (ProcessDuel 7 afterFirstDuel 1 2 WinnerDraw))) 2 = Some b'"
    "NewElo cl = Elo a'" "Change cl = Elo a' - 1216"
    "NewElo cr = Elo b'" "Change cr = Elo b' - 1184"
    by auto
  then show ?thesis using afterFirstDuel_rows ne res by blast
qed

subsection \<open>The balanced pick\<close>

text \<open>C7. With at least two experienced tracks, identifiers that are pairwise different
  (the primary key of the table) and Elos below \<open>2 ^ 62\<close> in absolute value,
  \<^verbatim>\<open>balancedMatch\<close> returns a pair: the left track is the experienced track at the drawn
  position, the right track is an experienced track with another identifier whose Elo
  difference to the left track is the least among all such tracks; and when some such
  track lies within \<open>EloRange\<close> (100) of the left track, so does the right track.\<close>

theorem balancedMatch_picks_closest:
  assumes two: "2 \<le> length (filter experiencedTrack tracks)"
    and ids: "distinct (map (\<lambda>t. ID (Track t)) tracks)"
    and range: "\<forall>t\<in>set tracks. \<bar>Elo (Rating t)\<bar> < 2 ^ 62"
  shows "\<exists>left right rnd'.
           balancedMatch rnd tracks = Some ((Some left, Some right), rnd') \<and>
           left = filter experiencedTrack tracks ! (rnd 0 mod length (filter experiencedTrack tracks)) \<and>
           left \<in> set (filter experiencedTrack tracks) \<and>
           right \<in> set (filter experiencedTrack tracks) \<and>
           ID (Track right) \<noteq> ID (Track left) \<and>
           (\<forall>c\<in>set (filter experiencedTrack tracks). ID (Track c) \<noteq> ID (Track left) \<longrightarrow>
               \<bar>Elo (Rating right) - Elo (Rating left)\<bar> \<le> \<bar>Elo (Rating c) - Elo (Rating left)\<bar>) \<and>
           ((\<exists>c\<in>set (filter experiencedTrack tracks). ID (Track c) \<noteq> ID (Track left) \<and>
                \<bar>Elo (Rating c) - Elo (Rating left)\<bar> \<le> EloRange) \<longrightarrow>
               \<bar>Elo (Rating right) - Elo (Rating left)\<bar> \<le> EloRange)"
proof -
  define ex where "ex = filter experiencedTrack tracks"
  define i where "i = rnd 0 mod length ex"
  define left where "left = ex ! i"
  have len: "2 \<le> length ex" using two by (simp add: ex_def)
  then have "0 < length ex" by linarith
  then have i: "i < length ex" by (simp add: i_def)
  then have left_in: "left \<in> set ex" by (simp add: left_def)
  have dex: "distinct (map (\<lambda>t. ID (Track t)) ex)"
    using ids by (simp add: ex_def distinct_map_filter)
  obtain j where j: "j < length ex" "j \<noteq> i"
    using len by (cases "i = 0") (auto intro: that[of 1] that[of 0])
  have "ID (Track (ex ! j)) \<noteq> ID (Track left)"
  proof
    assume "ID (Track (ex ! j)) = ID (Track left)"
    then have "map (\<lambda>t. ID (Track t)) ex ! j = map (\<lambda>t. ID (Track t)) ex ! i"
      using i j by (simp add: left_def)
    with dex i j show False
      using nth_eq_iff_index_eq[of "map (\<lambda>t. ID (Track t)) ex" j i] by simp
  qed
  then have other: "\<exists>c\<in>set ex. ID (Track c) \<noteq> ID (Track left)"
    using j(1) by (metis nth_mem)
  have sub: "set ex \<subseteq> set tracks" by (auto simp: ex_def)
  have small: "\<forall>c\<in>set ex. eloDiff left c < MaxInt"
  proof
    fix c assume "c \<in> set ex"
    with sub left_in range have "\<bar>Elo (Rating c)\<bar> < 2 ^ 62" "\<bar>Elo (Rating left)\<bar> < 2 ^ 62"
      by auto
    then show "eloDiff left c < MaxInt"
      by (simp add: eloDiff_abs MaxInt_def)
  qed
  from findBestOpponent_closest[OF other small]
  obtain right where r: "right \<in> set ex" "findBestOpponent left ex = Some right"
    "ID (Track right) \<noteq> ID (Track left)"
    "\<forall>c\<in>set ex. ID (Track c) \<noteq> ID (Track left) \<longrightarrow> eloDiff left right \<le> eloDiff left c"
    by blast
  have "ex \<noteq> []" using len by auto
  then have "balancedMatch rnd tracks = Some ((Some left, Some right), \<lambda>i. rnd (Suc i))"
    using len r(2)
    by (simp add: balancedMatch_def Intn_def Let_def ex_def[symmetric] i_def[symmetric]
          left_def[symmetric])
  moreover have "\<forall>c\<in>set ex. ID (Track c) \<noteq> ID (Track left) \<longrightarrow>
               \<bar>Elo (Rating right) - Elo (Rating left)\<bar> \<le> \<bar>Elo (Rating c) - Elo (Rating left)\<bar>"
    using r(4) by (simp add: eloDiff_abs)
  ultimately show ?thesis
    using left_in r(1,3) left_def i_def unfolding ex_def[symmetric] by fastforce
qed

text \<open>The theorem on three experienced tracks rated 1300, 1250 and 1050 with a first
  draw of 0: the track rated 1300 meets the track rated 1250.\<close>

theorem balancedMatch_picks_closest_witness:
  "2 \<le> length (filter experiencedTrack threeExperienced) \<and>
   distinct (map (\<lambda>t. ID (Track t)) threeExperienced) \<and>
   map_option fst (balancedMatch zeroDraws threeExperienced) =
     Some (Some (threeExperienced ! 0), Some (threeExperienced ! 1))"
proof -
  have two: "2 \<le> length (filter experiencedTrack threeExperienced)"
    by (simp add: threeExperienced_all) (simp add: threeExperienced_def)
  have ids: "distinct (map (\<lambda>t. ID (Track t)) threeExperienced)"
    by (simp add: threeExperienced_def store_examples)
  have range: "\<forall>t\<in>set threeExperienced. \<bar>Elo (Rating t)\<bar> < 2 ^ 62"
    by (simp add: threeExperienced_def)
  from balancedMatch_picks_closest[OF two ids range, where rnd=zeroDraws]
  obtain left right rnd' where m: "balancedMatch zeroDraws threeExperienced = Some ((Some left, Some right), rnd')"
    and l: "left = threeExperienced ! (zeroDraws 0 mod length threeExperienced)"
    and r: "right \<in> set threeExperienced" "ID (Track right) \<noteq> ID (Track left)"
    and least: "\<forall>c\<in>set threeExperienced. ID (Track c) \<noteq> ID (Track left) \<longrightarrow>
               \<bar>Elo (Rating right) - Elo (Rating left)\<bar> \<le> \<bar>Elo (Rating c) - Elo (Rating left)\<bar>"
    unfolding threeExperienced_all by blast
  have l0: "left = threeExperienced ! 0"
    using l by (simp add: zeroDraws_def)
  have "right = threeExperienced ! 1"
    using r least unfolding l0 by (auto simp: threeExperienced_def store_examples)
  with m l0 two ids show ?thesis by simp
qed

subsection \<open>Skipped duels\<close>

text \<open>C8. When both ratings exist, processing a \<open>skip\<close> leaves the tracks and the
  ratings (Elo, wins, losses, draws of every track) as they were. If the call succeeds,
  exactly one duel is appended, between the two tracks and without winner; if it
  fails, no duel is appended. It succeeds when no statement is refused.\<close>

theorem ProcessDuel_skip_invariant:
  assumes "selectRating (ratings_table db) l = Some a" and "selectRating (ratings_table db) r = Some b"
  shows "(case ProcessDuel now db l r WinnerSkip of (out, db') \<Rightarrow>
           tracks_table db' = tracks_table db \<and> ratings_table db' = ratings_table db \<and>
           (if out = Inr ()
            then duels_table db' = duels_table db @
                   [\<lparr>DuelID = int (length (duels_table db)) + 1, LeftTrackID = l, RightTrackID = r,
                     WinnerTrackID = None, CreatedAt = now\<rparr>]
            else duels_table db' = duels_table db) \<and>
           (True \<notin> set (failures db) \<longrightarrow> out = Inr ()))"
  using assms driver_reliable[of db] driver_reliable[of "snd (driver db)"]
     driver_reliable[of "snd (driver (snd (driver db)))"]
  by (auto simp: ProcessDuel_def GetRating_eq scores_skip recordDuel_eq split: option.splits)

text \<open>The theorem on two fresh tracks: the skip is recorded as the first duel.\<close>

theorem ProcessDuel_skip_invariant_witness:
  "selectRating (ratings_table twoFresh) 1 = Some (freshRating 1) \<and>
   selectRating (ratings_table twoFresh) 2 = Some (freshRating 2) \<and>
   fst (ProcessDuel 7 twoFresh 1 2 WinnerSkip) = Inr () \<and>
   ratings_table (snd (ProcessDuel 7 twoFresh 1 2 WinnerSkip)) = ratings_table twoFresh \<and>
   duels_table (snd (ProcessDuel 7 twoFresh 1 2 WinnerSkip)) =
     [\<lparr>DuelID = 1, LeftTrackID = 1, RightTrackID = 2, WinnerTrackID = None, CreatedAt = 7\<rparr>]"
proof -
  have d: "duels_table twoFresh = []" by (simp add: twoFresh_def)
  from ProcessDuel_skip_invariant[OF twoFresh_rows(1) twoFresh_rows(2), where now=7] twoFresh_rows d
  show ?thesis by (simp split: prod.splits if_splits)
qed

subsection \<open>Missing ratings\<close>

text \<open>C9. When the left or the right track has no rating, \<^verbatim>\<open>ProcessDuel\<close> fails for
  every result, and the tracks, the ratings and the duels are the ones before the call.
  The error is \<^verbatim>\<open>sql.ErrNoRows\<close>, the error of the missing row, unless the driver has
  refused a statement.\<close>

theorem ProcessDuel_missing_rating:
  assumes "selectRating (ratings_table db) l = None \<or> selectRating (ratings_table db) r = None"
  shows "\<exists>e db'. ProcessDuel now db l r res = (Inl e, db') \<and>
           tracks_table db' = tracks_table db \<and> ratings_table db' = ratings_table db \<and>
           duels_table db' = duels_table db \<and>
           (True \<notin> set (failures db) \<longrightarrow> e = ErrNoRows)"
  using assms driver_reliable[of db] driver_reliable[of "snd (driver db)"]
  by (auto simp: ProcessDuel_def GetRating_eq split: option.splits)

text \<open>The theorem on two fresh tracks and the identifier 3, which has no rating.\<close>

theorem ProcessDuel_missing_rating_witness:
  "selectRating (ratings_table twoFresh) 3 = None \<and>
   fst (ProcessDuel 7 twoFresh 1 3 WinnerLeft) = Inl ErrNoRows \<and>
   ratings_table (snd (ProcessDuel 7 twoFresh 1 3 WinnerLeft)) = ratings_table twoFresh \<and>
   duels_table (snd (ProcessDuel 7 twoFresh 1 3 WinnerLeft)) = duels_table twoFresh"
proof -
  have h: "selectRating (ratings_table twoFresh) 1 = None \<or>
           selectRating (ratings_table twoFresh) 3 = None"
    using twoFresh_rows(3) by simp
  from ProcessDuel_missing_rating[OF h, where now=7 and res=WinnerLeft] twoFresh_rows
  show ?thesis by auto
qed

subsection \<open>The win rate\<close>



end
